theory Spec2Isabelle
  imports Main
begin

section \<open>Python values of the request\<close>

text \<open>
  The handlers of \<^verbatim>\<open>cloud-functions/main.py\<close> work on what \<^verbatim>\<open>request.get_json()\<close>
  returns: the Python value of a JSON document. A Python \<^verbatim>\<open>dict\<close> is the list of its
  items in insertion order (its keys are pairwise different; no theorem below needs that),
  \<^verbatim>\<open>None\<close> is \<open>JNull\<close>. Of the JSON numbers the integers are modelled; a string is a
  list of characters.
\<close>

datatype json =
    JNull
  | JBool bool
  | JNum int
  | JStr string
  | JArr "json list"
  | JObj "(string \<times> json) list"

text \<open>
  A raised Python exception, by its \<^verbatim>\<open>str(e)\<close>. The exceptions of the model are the
  instances of \<^verbatim>\<open>Exception\<close>, the ones an \<^verbatim>\<open>except Exception\<close> clause catches; an exit of
  the interpreter or an interrupt from the keyboard is not modelled.
\<close>

datatype pyexn = PyExn (str: string)

text \<open>What a handler returns: the value handed to \<^verbatim>\<open>jsonify\<close> and the HTTP status.\<close>

datatype outcome =
    Translated json string
  | Failed string

record summary =
  totalLanguages :: nat
  successful :: nat
  failed :: nat

datatype response =
    ErrorResponse nat string
  | TranslateResponse "(json \<times> outcome) list" summary
  | ValidateResponse bool "string list" nat

fun status :: "response \<Rightarrow> nat" where
  "status (ErrorResponse code msg) = code"
| "status (TranslateResponse results summ) = 200"
| "status (ValidateResponse valid issues keyCount) = 200"

text \<open>Truth value of a Python object, as \<^verbatim>\<open>not x\<close> tests it.\<close>

fun truthy :: "json \<Rightarrow> bool" where
  "truthy JNull = False"
| "truthy (JBool b) = b"
| "truthy (JNum n) = (n \<noteq> 0)"
| "truthy (JStr s) = (s \<noteq> [])"
| "truthy (JArr xs) = (xs \<noteq> [])"
| "truthy (JObj kvs) = (kvs \<noteq> [])"

fun py_type_name :: "json \<Rightarrow> string" where
  "py_type_name JNull = ''NoneType''"
| "py_type_name (JBool b) = ''bool''"
| "py_type_name (JNum n) = ''int''"
| "py_type_name (JStr s) = ''str''"
| "py_type_name (JArr xs) = ''list''"
| "py_type_name (JObj kvs) = ''dict''"

definition quoted :: "string \<Rightarrow> string" where
  "quoted s = CHR 0x27 # s @ [CHR 0x27]"

definition no_attribute :: "json \<Rightarrow> string \<Rightarrow> pyexn" where
  "no_attribute v name =
     PyExn (quoted (py_type_name v) @ '' object has no attribute '' @ quoted name)"

text \<open>\<^verbatim>\<open>x.get(key, default)\<close>: only a dict has the method.\<close>

fun py_get :: "json \<Rightarrow> string \<Rightarrow> json \<Rightarrow> pyexn + json" where
  "py_get (JObj kvs) key dflt =
     Inr (case map_of kvs key of None \<Rightarrow> dflt | Some v \<Rightarrow> v)"
| "py_get v key dflt = Inl (no_attribute v ''get'')"

text \<open>\<^verbatim>\<open>x.keys()\<close>: only a dict has the method.\<close>

fun py_keys :: "json \<Rightarrow> pyexn + string list" where
  "py_keys (JObj kvs) = Inr (map fst kvs)"
| "py_keys v = Inl (no_attribute v ''keys'')"

definition startswith :: "string \<Rightarrow> string \<Rightarrow> bool" where
  "startswith s prefix = (take (length prefix) s = prefix)"

section \<open>The /validate handler\<close>

text \<open>
  The loop \<^verbatim>\<open>for key, value in content.items()\<close> of lines 160 to 162, appending to
  \<^verbatim>\<open>issues\<close>.
\<close>

fun check_empty_values :: "(string \<times> json) list \<Rightarrow> string list \<Rightarrow> string list" where
  "check_empty_values [] issues = issues"
| "check_empty_values ((key, val) # rest) issues =
     check_empty_values rest
       (if \<not> startswith key ''@'' \<and> (val = JStr '''' \<or> val = JNull)
        then issues @ [''Empty value for key: '' @ key]
        else issues)"

text \<open>Lines 150 to 162: the list \<^verbatim>\<open>issues\<close> when the return statement is reached.\<close>

fun collect_issues :: "json \<Rightarrow> string list" where
  "collect_issues (JObj kvs) =
     check_empty_values kvs
       (if ''@@locale'' \<notin> set (map fst kvs) then [''Missing @@locale metadata''] else [])"
| "collect_issues v = [''Content must be a JSON object'']"

text \<open>
  The handler. Its argument is the outcome of \<^verbatim>\<open>request.get_json()\<close>: the parsed body,
  or the exception it raised. Every exception raised inside the \<^verbatim>\<open>try\<close> ends in the
  500 response of line 171.
\<close>

definition validate_failed :: "pyexn \<Rightarrow> response" where
  "validate_failed e = ErrorResponse 500 (''Validation failed: '' @ str e)"

definition validate :: "pyexn + json \<Rightarrow> response" where
  "validate got =
     (case got of
        Inl e \<Rightarrow> validate_failed e
      | Inr data \<Rightarrow>
          if \<not> truthy data then ErrorResponse 400 ''No JSON payload provided''
          else
            (case py_get data ''content'' (JObj []) of
               Inl e \<Rightarrow> validate_failed e
             | Inr content \<Rightarrow>
                 let issues = collect_issues content in
                 (case py_keys content of
                    Inl e \<Rightarrow> validate_failed e
                  | Inr ks \<Rightarrow>
                      ValidateResponse (length issues = 0) issues
                        (length (filter (\<lambda>k. \<not> startswith k ''@'') ks)))))"

section \<open>The /translate handler\<close>

text \<open>
  The handler's collaborators are outside the repository: the translator object
  (\<^verbatim>\<open>get_translator\<close>, \<^verbatim>\<open>generate_for_language\<close>), the temporary file
  (\<^verbatim>\<open>NamedTemporaryFile\<close>, \<^verbatim>\<open>json.dump\<close> with the closing of the file), the reading
  of the translated file (\<^verbatim>\<open>open\<close> with \<^verbatim>\<open>json.load\<close>) and \<^verbatim>\<open>os.unlink\<close>. Each is a
  parameter: a function of the world \<open>'w\<close> (file system, translator, provider) that returns
  normally or raises, and leaves a new world. Nothing is assumed about them. The last
  parameter, \<open>sort_error\<close>, is the \<^verbatim>\<open>TypeError\<close> that the sorting of keys in \<^verbatim>\<open>jsonify\<close>
  raises when it meets two keys it cannot compare: which two it meets first, and so the
  text of the error, is the interpreter's business.
\<close>

record 'w env =
  get_translator :: "'w \<Rightarrow> pyexn option \<times> 'w"
  NamedTemporaryFile :: "'w \<Rightarrow> (pyexn + string) \<times> 'w"
  dump :: "json \<Rightarrow> string \<Rightarrow> 'w \<Rightarrow> pyexn option \<times> 'w"
  generate_for_language :: "string \<Rightarrow> json \<Rightarrow> 'w \<Rightarrow> (pyexn + string) \<times> 'w"
  load :: "string \<Rightarrow> 'w \<Rightarrow> (pyexn + json) \<times> 'w"
  unlink :: "string \<Rightarrow> 'w \<Rightarrow> pyexn option \<times> 'w"
  sort_error :: "json list \<Rightarrow> pyexn"

text \<open>Every call of a collaborator is written to a trace, in the order of the calls.\<close>

datatype event =
    GetTranslator
  | CreateTemp
  | Dump string
  | Generate string json
  | Load string
  | Unlink string

record 'w run =
  world :: 'w
  trace :: "event list"

definition call :: "event \<Rightarrow> ('w \<Rightarrow> 'r \<times> 'w) \<Rightarrow> 'w run \<Rightarrow> 'r \<times> 'w run" where
  "call ev f s = (case f (world s) of (r, w) \<Rightarrow> (r, \<lparr>world = w, trace = trace s @ [ev]\<rparr>))"

text \<open>
  The dict \<^verbatim>\<open>results\<close>. A key must be hashable (a list or a dict is not), and two keys
  are the same key when Python's \<^verbatim>\<open>==\<close> holds of them: for the hashable values of a JSON
  document that is equality, with \<^verbatim>\<open>True == 1\<close> and \<^verbatim>\<open>False == 0\<close>. An assignment to
  a key that is present keeps the key and its place and replaces the value.
\<close>

fun hashable :: "json \<Rightarrow> bool" where
  "hashable (JArr xs) = False"
| "hashable (JObj kvs) = False"
| "hashable v = True"

fun key_norm :: "json \<Rightarrow> json" where
  "key_norm (JBool b) = JNum (if b then 1 else 0)"
| "key_norm v = v"

definition py_key_eq :: "json \<Rightarrow> json \<Rightarrow> bool" where
  "py_key_eq a b = (key_norm a = key_norm b)"

fun dict_update :: "(json \<times> 'v) list \<Rightarrow> json \<Rightarrow> 'v \<Rightarrow> (json \<times> 'v) list" where
  "dict_update [] key v = [(key, v)]"
| "dict_update ((k, old) # rest) key v =
     (if py_key_eq k key then (k, v) # rest else (k, old) # dict_update rest key v)"

fun dict_lookup :: "(json \<times> 'v) list \<Rightarrow> json \<Rightarrow> 'v option" where
  "dict_lookup [] key = None"
| "dict_lookup ((k, v) # rest) key = (if py_key_eq k key then Some v else dict_lookup rest key)"

definition setitem :: "(json \<times> 'v) list \<Rightarrow> json \<Rightarrow> 'v \<Rightarrow> pyexn + (json \<times> 'v) list" where
  "setitem d key v =
     (if hashable key then Inr (dict_update d key v)
      else Inl (PyExn (''unhashable type: '' @ quoted (py_type_name key))))"

text \<open>Lines 84 to 94, the body of the inner \<^verbatim>\<open>try\<close>.\<close>

definition try_translate ::
  "'w env \<Rightarrow> string \<Rightarrow> json \<Rightarrow> (json \<times> outcome) list \<Rightarrow> 'w run
    \<Rightarrow> (pyexn + (json \<times> outcome) list) \<times> 'w run" where
  "try_translate env source_path language results s =
     (case call (Generate source_path language)
             (generate_for_language env source_path language) s of
        (Inl e, s1) \<Rightarrow> (Inl e, s1)
      | (Inr target_path, s1) \<Rightarrow>
          (case call (Load target_path) (load env target_path) s1 of
             (Inl e, s2) \<Rightarrow> (Inl e, s2)
           | (Inr translated_content, s2) \<Rightarrow>
               (setitem results language (Translated translated_content target_path), s2)))"

text \<open>Lines 83 to 100, one pass of the loop: the \<^verbatim>\<open>try\<close> and its \<^verbatim>\<open>except Exception\<close>.\<close>

definition attempt ::
  "'w env \<Rightarrow> string \<Rightarrow> json \<Rightarrow> (json \<times> outcome) list \<Rightarrow> 'w run
    \<Rightarrow> (pyexn + (json \<times> outcome) list) \<times> 'w run" where
  "attempt env source_path language results s =
     (case try_translate env source_path language results s of
        (Inl e, s1) \<Rightarrow> (setitem results language (Failed (str e)), s1)
      | (Inr results1, s1) \<Rightarrow> (Inr results1, s1))"

text \<open>Line 82, the loop: an exception that leaves a pass ends it.\<close>

fun translate_loop ::
  "'w env \<Rightarrow> string \<Rightarrow> json list \<Rightarrow> (json \<times> outcome) list \<Rightarrow> 'w run
    \<Rightarrow> (pyexn + (json \<times> outcome) list) \<times> 'w run" where
  "translate_loop env source_path [] results s = (Inr results, s)"
| "translate_loop env source_path (language # rest) results s =
     (case attempt env source_path language results s of
        (Inl e, s1) \<Rightarrow> (Inl e, s1)
      | (Inr results1, s1) \<Rightarrow> translate_loop env source_path rest results1 s1)"

text \<open>
  What \<^verbatim>\<open>for language in languages\<close> runs over: the elements of a list, the characters of
  a string, the keys of a dict; any other value is not iterable.
\<close>

fun py_iter :: "json \<Rightarrow> pyexn + json list" where
  "py_iter (JArr xs) = Inr xs"
| "py_iter (JStr cs) = Inr (map (\<lambda>c. JStr [c]) cs)"
| "py_iter (JObj kvs) = Inr (map (\<lambda>kv. JStr (fst kv)) kvs)"
| "py_iter v = Inl (PyExn (quoted (py_type_name v) @ '' object is not iterable''))"

fun py_len :: "json \<Rightarrow> pyexn + nat" where
  "py_len (JArr xs) = Inr (length xs)"
| "py_len (JStr cs) = Inr (length cs)"
| "py_len (JObj kvs) = Inr (length kvs)"
| "py_len v = Inl (PyExn (''object of type '' @ quoted (py_type_name v) @ '' has no len()''))"

text \<open>
  Lines 80 to 107: the loop inside \<^verbatim>\<open>try\<close>, and \<^verbatim>\<open>finally\<close> the removal of the source
  file, whose own exception the bare \<^verbatim>\<open>except\<close> drops. The result of the loop, raised
  or not, is what leaves the statement.
\<close>

definition translate_languages ::
  "'w env \<Rightarrow> string \<Rightarrow> json \<Rightarrow> 'w run \<Rightarrow> (pyexn + (json \<times> outcome) list) \<times> 'w run" where
  "translate_languages env source_path languages s =
     (case (case py_iter languages of
              Inl e \<Rightarrow> (Inl e, s)
            | Inr xs \<Rightarrow> translate_loop env source_path xs [] s) of
        (r, s1) \<Rightarrow>
          (case call (Unlink source_path) (unlink env source_path) s1 of
             (dropped, s2) \<Rightarrow> (r, s2)))"

fun success :: "outcome \<Rightarrow> bool" where
  "success (Translated translated_content target_path) = True"
| "success (Failed msg) = False"

text \<open>
  \<^verbatim>\<open>jsonify\<close> writes the keys of a dict in sorted order (the application keeps Flask's
  default), and the sorting compares the keys with \<^verbatim>\<open><\<close>. Strings compare with strings
  and numbers with numbers (a truth value is a number); a string and a number, or
  \<^verbatim>\<open>None\<close> and anything, do not compare, and the comparison raises \<^verbatim>\<open>TypeError\<close>. A sort
  of keys that are not all of one kind meets such a pair. The keys of every other dict
  the handlers hand to \<^verbatim>\<open>jsonify\<close> are strings.
\<close>

fun key_kind :: "json \<Rightarrow> nat" where
  "key_kind (JStr s) = 0"
| "key_kind (JNum n) = 1"
| "key_kind (JBool b) = 1"
| "key_kind v = 2"

fun sortable :: "json list \<Rightarrow> bool" where
  "sortable [] = True"
| "sortable [k] = True"
| "sortable (k # ks) = (key_kind k \<noteq> 2 \<and> list_all (\<lambda>k1. key_kind k1 = key_kind k) ks)"

text \<open>
  Lines 109 to 116, inside the outer \<^verbatim>\<open>try\<close>: the summary is computed, then
  \<^verbatim>\<open>jsonify\<close> sorts the keys of \<^verbatim>\<open>results\<close>.
\<close>

definition translate_response ::
  "'w env \<Rightarrow> json \<Rightarrow> (json \<times> outcome) list \<Rightarrow> pyexn + response" where
  "translate_response env languages results =
     (case py_len languages of
        Inl e \<Rightarrow> Inl e
      | Inr n \<Rightarrow>
          if sortable (map fst results)
          then Inr (TranslateResponse results
                 \<lparr>totalLanguages = n,
                  successful = length (filter (\<lambda>r. success r) (map snd results)),
                  failed = length (filter (\<lambda>r. \<not> success r) (map snd results))\<rparr>)
          else Inl (sort_error env (map fst results)))"

definition translate_failed :: "pyexn \<Rightarrow> response" where
  "translate_failed e = ErrorResponse 500 (''Translation failed: '' @ str e)"

text \<open>
  Lines 58 to 78: the request is read and checked, the translator is fetched and the
  source file is written. The result is the early response, or \<^verbatim>\<open>content\<close>,
  \<^verbatim>\<open>languages\<close> and \<^verbatim>\<open>source_path\<close> as the inner \<^verbatim>\<open>try\<close> finds them.
\<close>

definition prepare ::
  "'w env \<Rightarrow> pyexn + json \<Rightarrow> 'w run \<Rightarrow> (response + json \<times> json \<times> string) \<times> 'w run" where
  "prepare env got s =
     (case got of
        Inl e \<Rightarrow> (Inl (translate_failed e), s)
      | Inr data \<Rightarrow>
          if \<not> truthy data then (Inl (ErrorResponse 400 ''No JSON payload provided''), s)
          else
            (case py_get data ''content'' (JObj []) of
               Inl e \<Rightarrow> (Inl (translate_failed e), s)
             | Inr content \<Rightarrow>
            (case py_get data ''languages'' (JArr []) of
               Inl e \<Rightarrow> (Inl (translate_failed e), s)
             | Inr languages \<Rightarrow>
            (case py_get data ''sourceLanguage'' (JStr ''en'') of
               Inl e \<Rightarrow> (Inl (translate_failed e), s)
             | Inr source_language \<Rightarrow>
                 if \<not> truthy content then (Inl (ErrorResponse 400 ''No content provided''), s)
                 else if \<not> truthy languages
                 then (Inl (ErrorResponse 400 ''No target languages specified''), s)
                 else
                   (case call GetTranslator (get_translator env) s of
                      (Some e, s1) \<Rightarrow> (Inl (translate_failed e), s1)
                    | (None, s1) \<Rightarrow>
                   (case call CreateTemp (NamedTemporaryFile env) s1 of
                      (Inl e, s2) \<Rightarrow> (Inl (translate_failed e), s2)
                    | (Inr source_path, s2) \<Rightarrow>
                   (case call (Dump source_path) (dump env content source_path) s2 of
                      (Some e, s3) \<Rightarrow> (Inl (translate_failed e), s3)
                    | (None, s3) \<Rightarrow> (Inr (content, languages, source_path), s3))))))))"

text \<open>The handler, lines 57 to 119.\<close>

definition translate :: "'w env \<Rightarrow> pyexn + json \<Rightarrow> 'w run \<Rightarrow> response \<times> 'w run" where
  "translate env got s =
     (case prepare env got s of
        (Inl early, s1) \<Rightarrow> (early, s1)
      | (Inr (content, languages, source_path), s1) \<Rightarrow>
          (case translate_languages env source_path languages s1 of
             (Inl e, s2) \<Rightarrow> (translate_failed e, s2)
           | (Inr results, s2) \<Rightarrow>
               (case translate_response env languages results of
                  Inl e \<Rightarrow> (translate_failed e, s2)
                | Inr r \<Rightarrow> (r, s2))))"

text \<open>The calls of the provider in a trace, and the removals, in their order.\<close>

fun provider_calls :: "event list \<Rightarrow> (string \<times> json) list" where
  "provider_calls [] = []"
| "provider_calls (Generate source_path language # evs) =
     (source_path, language) # provider_calls evs"
| "provider_calls (ev # evs) = provider_calls evs"

fun removals :: "event list \<Rightarrow> string list" where
  "removals [] = []"
| "removals (Unlink path # evs) = path # removals evs"
| "removals (ev # evs) = removals evs"

section \<open>A small world to run the handlers in\<close>

text \<open>
  The world counts the calls of the provider made so far. The provider is down for
  French; for any other language it names the file \<^verbatim>\<open>/tmp/first.arb\<close> on its first
  call and \<^verbatim>\<open>/tmp/later.arb\<close> afterwards. Every translated file reads \<^verbatim>\<open>{"a": "b"}\<close>.
\<close>

definition demo_env :: "nat env" where
  "demo_env =
     \<lparr>get_translator = (\<lambda>w. (None, w)),
      NamedTemporaryFile = (\<lambda>w. (Inr ''/tmp/source.arb'', w)),
      dump = (\<lambda>c path w. (None, w)),
      generate_for_language =
        (\<lambda>path language w.
           (if language = JStr ''fr'' then Inl (PyExn ''provider down'')
            else if w = 0 then Inr ''/tmp/first.arb''
            else Inr ''/tmp/later.arb'', Suc w)),
      load = (\<lambda>path w. (Inr (JObj [(''a'', JStr ''b'')]), w)),
      unlink = (\<lambda>path w. (None, w)),
      sort_error = (\<lambda>ks. PyExn ''keys do not compare'')\<rparr>"

definition start :: "nat run" where
  "start = \<lparr>world = 0, trace = []\<rparr>"

definition request :: "json \<Rightarrow> json \<Rightarrow> pyexn + json" where
  "request content languages = Inr (JObj [(''content'', content), (''languages'', languages)])"

text \<open>
  A second world: the list of the files that exist. The temporary file is created, the
  disk is full when the content is written to it, and a removal takes the file from the
  list.
\<close>

definition disk_env :: "string list env" where
  "disk_env =
     \<lparr>get_translator = (\<lambda>files. (None, files)),
      NamedTemporaryFile = (\<lambda>files. (Inr ''/tmp/source.arb'', ''/tmp/source.arb'' # files)),
      dump = (\<lambda>c path files. (Some (PyExn ''No space left on device''), files)),
      generate_for_language =
        (\<lambda>path language files. (Inr ''/tmp/target.arb'', ''/tmp/target.arb'' # files)),
      load = (\<lambda>path files. (Inr (JObj [(''a'', JStr ''b'')]), files)),
      unlink =
        (\<lambda>path files.
           (if path \<in> set files then None else Some (PyExn ''No such file or directory''),
            removeAll path files)),
      sort_error = (\<lambda>ks. PyExn ''keys do not compare'')\<rparr>"

section \<open>What the specification asks of the loop\<close>

text \<open>
  The language codes of the specification are strings.
\<close>

fun is_str :: "json \<Rightarrow> bool" where
  "is_str (JStr s) = True"
| "is_str v = False"

text \<open>
  These definitions follow the words of the specification, not the code; the facts
  below compare the code with them. For one language (section 4.3, step 2): the provider
  is called once and the file it names is read; either gives \<^verbatim>\<open>Translated\<close> with the
  content and the location, or, if one of the two raises, \<^verbatim>\<open>Failed\<close> with the message.
  For the languages of a request: one such attempt for each element, in the order of the
  request, each starting in the world the one before left, and no attempt depending on
  the outcomes of the others.
\<close>

definition spec_outcome :: "'w env \<Rightarrow> string \<Rightarrow> json \<Rightarrow> 'w run \<Rightarrow> outcome \<times> 'w run" where
  "spec_outcome env source_path language s =
     (case call (Generate source_path language)
             (generate_for_language env source_path language) s of
        (Inl e, s1) \<Rightarrow> (Failed (str e), s1)
      | (Inr target_path, s1) \<Rightarrow>
          (case call (Load target_path) (load env target_path) s1 of
             (Inl e, s2) \<Rightarrow> (Failed (str e), s2)
           | (Inr translated_content, s2) \<Rightarrow>
               (Translated translated_content target_path, s2)))"

fun spec_outcomes ::
  "'w env \<Rightarrow> string \<Rightarrow> json list \<Rightarrow> 'w run \<Rightarrow> (json \<times> outcome) list \<times> 'w run" where
  "spec_outcomes env source_path [] s = ([], s)"
| "spec_outcomes env source_path (language # rest) s =
     (case spec_outcome env source_path language s of
        (out, s1) \<Rightarrow>
          (case spec_outcomes env source_path rest s1 of
             (outs, s2) \<Rightarrow> ((language, out) # outs, s2)))"

text \<open>
  The outcomes map of the response (sections 3 and 9): the outcomes are written under
  their codes in the order of the attempts, so the last one written for a code wins.
\<close>

definition written :: "(json \<times> outcome) list \<Rightarrow> (json \<times> outcome) list" where
  "written outs = foldl (\<lambda>d lo. dict_update d (fst lo) (snd lo)) [] outs"

section \<open>Facts about the validator\<close>

definition is_empty_entry :: "string \<times> json \<Rightarrow> bool" where
  "is_empty_entry kv = (\<not> startswith (fst kv) ''@'' \<and> (snd kv = JStr '''' \<or> snd kv = JNull))"

definition empty_issue :: "string \<times> json \<Rightarrow> string" where
  "empty_issue kv = ''Empty value for key: '' @ fst kv"

lemma check_empty_values_eq:
  "check_empty_values kvs issues = issues @ map empty_issue (filter is_empty_entry kvs)"
  by (induction kvs issues rule: check_empty_values.induct)
     (simp_all add: is_empty_entry_def empty_issue_def)

lemma missing_not_empty_issue: "''Missing @@locale metadata'' \<noteq> empty_issue kv"
  by (simp add: empty_issue_def)

lemma collect_issues_obj:
  "collect_issues (JObj kvs) =
     (if ''@@locale'' \<notin> fst ` set kvs then [''Missing @@locale metadata''] else [])
       @ map empty_issue (filter is_empty_entry kvs)"
  by (simp add: check_empty_values_eq)

lemma validate_obj:
  assumes "data = JObj d" "d \<noteq> []" "py_get data ''content'' (JObj []) = Inr (JObj kvs)"
  shows "validate (Inr data) =
           ValidateResponse (collect_issues (JObj kvs) = []) (collect_issues (JObj kvs))
             (length (filter (\<lambda>k. \<not> startswith k ''@'') (map fst kvs)))"
  using assms by (simp add: validate_def Let_def del: collect_issues.simps)

lemma validate_not_mapping:
  assumes "data = JObj d" "d \<noteq> []" "py_get data ''content'' (JObj []) = Inr content"
    and "\<And>kvs. content \<noteq> JObj kvs"
  shows "validate (Inr data) = validate_failed (no_attribute content ''keys'')"
proof (cases content)
  case (JObj kvs)
  with assms(4) show ?thesis by blast
qed (use assms in \<open>simp_all add: validate_def Let_def\<close>)

text \<open>
  \<^bold>\<open>C4\<close> (the code departs from the claim). For a content that is not a mapping the
  handler does build the one issue \<^verbatim>\<open>Content must be a JSON object\<close>, but the return
  statement then calls \<^verbatim>\<open>content.keys()\<close> for \<^verbatim>\<open>keyCount\<close>: the call raises, and the
  request ends in the 500 response of line 171 instead of a report. Here at the body
  \<^verbatim>\<open>{"content": [1, 2]}\<close>; \<open>validate_not_mapping\<close> is the same for every such content.
\<close>

theorem validate_list_content_fails:
  "collect_issues (JArr [JNum 1, JNum 2]) = [''Content must be a JSON object'']
   \<and> validate (Inr (JObj [(''content'', JArr [JNum 1, JNum 2])])) =
       ErrorResponse 500
         (''Validation failed: '' @ quoted ''list'' @ '' object has no attribute '' @ quoted ''keys'')"
  by (simp add: validate_def validate_failed_def no_attribute_def)

text \<open>
  \<^bold>\<open>C6\<close>. For a request body that is a non-empty JSON object whose content (the default
  \<^verbatim>\<open>{}\<close> when the field is absent) is a mapping, the handler answers with a report:
  \<^verbatim>\<open>Missing @@locale metadata\<close> is among the issues exactly when the key \<^verbatim>\<open>@@locale\<close>
  is absent; every key that does not start with \<^verbatim>\<open>@\<close> and whose value is the empty
  string or null has its \<^verbatim>\<open>Empty value for key\<close> issue; the two checks do not cut each
  other short (the issues are those of the first check followed by those of the second);
  \<^verbatim>\<open>keyCount\<close> is the number of keys that do not start with \<^verbatim>\<open>@\<close>; and \<^verbatim>\<open>valid\<close>
  holds exactly when there is no issue.
\<close>

theorem validate_mapping_report:
  assumes "data = JObj d" "d \<noteq> []" "py_get data ''content'' (JObj []) = Inr (JObj kvs)"
  shows "\<exists>valid issues keyCount.
           validate (Inr data) = ValidateResponse valid issues keyCount
           \<and> (''Missing @@locale metadata'' \<in> set issues \<longleftrightarrow> ''@@locale'' \<notin> fst ` set kvs)
           \<and> (\<forall>key val. (key, val) \<in> set kvs \<and> \<not> startswith key ''@''
                  \<and> (val = JStr '''' \<or> val = JNull)
                \<longrightarrow> ''Empty value for key: '' @ key \<in> set issues)
           \<and> issues =
               (if ''@@locale'' \<notin> fst ` set kvs then [''Missing @@locale metadata''] else [])
                 @ map empty_issue (filter is_empty_entry kvs)
           \<and> keyCount = length (filter (\<lambda>k. \<not> startswith k ''@'') (map fst kvs))
           \<and> (valid \<longleftrightarrow> issues = [])"
proof -
  let ?issues = "collect_issues (JObj kvs)"
  have resp: "validate (Inr data) =
      ValidateResponse (?issues = []) ?issues
        (length (filter (\<lambda>k. \<not> startswith k ''@'') (map fst kvs)))"
    using assms by (rule validate_obj)
  have shape: "?issues =
      (if ''@@locale'' \<notin> fst ` set kvs then [''Missing @@locale metadata''] else [])
        @ map empty_issue (filter is_empty_entry kvs)"
    by (rule collect_issues_obj)
  have loc: "''Missing @@locale metadata'' \<in> set ?issues \<longleftrightarrow> ''@@locale'' \<notin> fst ` set kvs"
    unfolding shape using missing_not_empty_issue by auto
  have empties: "''Empty value for key: '' @ key \<in> set ?issues"
    if "(key, val) \<in> set kvs" "\<not> startswith key ''@''" "val = JStr '''' \<or> val = JNull"
    for key val
  proof -
    from that have "(key, val) \<in> set (filter is_empty_entry kvs)"
      by (simp add: is_empty_entry_def)
    then have "empty_issue (key, val) \<in> set (map empty_issue (filter is_empty_entry kvs))"
      by simp
    then show ?thesis unfolding shape by (simp add: empty_issue_def)
  qed
  show ?thesis
    using resp shape loc empties by blast
qed

text \<open>The witness: the body \<^verbatim>\<open>{"content": {"hello": ""}}\<close>, with both issues.\<close>

theorem validate_mapping_report_witness:
  "validate (Inr (JObj [(''content'', JObj [(''hello'', JStr '''')])])) =
     ValidateResponse False [''Missing @@locale metadata'', ''Empty value for key: hello''] 1"
proof -
  let ?kvs = "[(''hello'', JStr '''')]"
  have "\<exists>valid issues keyCount.
      validate (Inr (JObj [(''content'', JObj ?kvs)])) = ValidateResponse valid issues keyCount
      \<and> (''Missing @@locale metadata'' \<in> set issues \<longleftrightarrow> ''@@locale'' \<notin> fst ` set ?kvs)
      \<and> (\<forall>key val. (key, val) \<in> set ?kvs \<and> \<not> startswith key ''@''
             \<and> (val = JStr '''' \<or> val = JNull)
           \<longrightarrow> ''Empty value for key: '' @ key \<in> set issues)
      \<and> issues =
          (if ''@@locale'' \<notin> fst ` set ?kvs then [''Missing @@locale metadata''] else [])
            @ map empty_issue (filter is_empty_entry ?kvs)
      \<and> keyCount = length (filter (\<lambda>k. \<not> startswith k ''@'') (map fst ?kvs))
      \<and> (valid \<longleftrightarrow> issues = [])"
    by (rule validate_mapping_report[OF refl]) simp_all
  then obtain valid issues keyCount where
    "validate (Inr (JObj [(''content'', JObj ?kvs)])) = ValidateResponse valid issues keyCount"
    "issues =
       (if ''@@locale'' \<notin> fst ` set ?kvs then [''Missing @@locale metadata''] else [])
         @ map empty_issue (filter is_empty_entry ?kvs)"
    "keyCount = length (filter (\<lambda>k. \<not> startswith k ''@'') (map fst ?kvs))"
    "valid \<longleftrightarrow> issues = []"
    by blast
  then show ?thesis
    by (simp add: is_empty_entry_def empty_issue_def startswith_def)
qed

text \<open>
  \<^bold>\<open>C9\<close> (as stated, refuted). The body \<^verbatim>\<open>{}\<close> is a JSON body without the field
  \<^verbatim>\<open>content\<close>, and it is rejected with 400 by the test \<^verbatim>\<open>if not data\<close> of line 144.
\<close>

theorem validate_empty_body_rejected:
  "''content'' \<notin> fst ` set ([] :: (string \<times> json) list)
   \<and> validate (Inr (JObj [])) = ErrorResponse 400 ''No JSON payload provided''
   \<and> status (validate (Inr (JObj []))) = 400"
  by (simp add: validate_def)

text \<open>
  \<^bold>\<open>C9\<close> (amended). For every body that is a non-empty JSON object without the field
  \<^verbatim>\<open>content\<close>, the content is the empty mapping and the answer is the report with
  \<^verbatim>\<open>valid\<close> false, the one issue \<^verbatim>\<open>Missing @@locale metadata\<close> and \<^verbatim>\<open>keyCount\<close> 0.
\<close>

theorem validate_without_content:
  assumes "data = JObj d" "d \<noteq> []" "''content'' \<notin> fst ` set d"
  shows "validate (Inr data) = ValidateResponse False [''Missing @@locale metadata''] 0"
proof -
  from assms(3) have "map_of d ''content'' = None"
    by (simp add: map_of_eq_None_iff)
  with assms(1,2) show ?thesis
    by (simp add: validate_def)
qed

theorem validate_without_content_witness:
  "[(''sourceLanguage'', JStr ''en'')] \<noteq> []
   \<and> ''content'' \<notin> fst ` set [(''sourceLanguage'', JStr ''en'')]
   \<and> validate (Inr (JObj [(''sourceLanguage'', JStr ''en'')])) =
       ValidateResponse False [''Missing @@locale metadata''] 0"
  using validate_without_content
    [of "JObj [(''sourceLanguage'', JStr ''en'')]" "[(''sourceLanguage'', JStr ''en'')]"]
  by simp

text \<open>
  \<^bold>\<open>C10\<close>. For a mapping content, an \<^verbatim>\<open>Empty value for key\<close> issue is reported for a
  key only if the key does not start with \<^verbatim>\<open>@\<close> and the mapping gives it the empty
  string or null: no other value, whatever its type, is flagged. Every key that does not
  start with \<^verbatim>\<open>@\<close> counts in \<^verbatim>\<open>keyCount\<close>, whatever its value. And a bundle that has
  \<^verbatim>\<open>@@locale\<close> and gives none of those keys the empty string or null is reported valid.
\<close>

theorem validate_flags_only_empty:
  assumes "data = JObj d" "d \<noteq> []" "py_get data ''content'' (JObj []) = Inr (JObj kvs)"
  shows "\<exists>valid issues keyCount.
           validate (Inr data) = ValidateResponse valid issues keyCount
           \<and> (\<forall>key. ''Empty value for key: '' @ key \<in> set issues \<longrightarrow>
                 (\<exists>val. (key, val) \<in> set kvs \<and> \<not> startswith key ''@''
                    \<and> (val = JStr '''' \<or> val = JNull)))
           \<and> keyCount = length (filter (\<lambda>kv. \<not> startswith (fst kv) ''@'') kvs)
           \<and> (''@@locale'' \<in> fst ` set kvs
                \<and> (\<forall>kv \<in> set kvs. startswith (fst kv) ''@''
                       \<or> (snd kv \<noteq> JStr '''' \<and> snd kv \<noteq> JNull))
               \<longrightarrow> valid)"
proof -
  let ?issues = "collect_issues (JObj kvs)"
  have resp: "validate (Inr data) =
      ValidateResponse (?issues = []) ?issues
        (length (filter (\<lambda>k. \<not> startswith k ''@'') (map fst kvs)))"
    using assms by (rule validate_obj)
  have shape: "?issues =
      (if ''@@locale'' \<notin> fst ` set kvs then [''Missing @@locale metadata''] else [])
        @ map empty_issue (filter is_empty_entry kvs)"
    by (rule collect_issues_obj)
  have only: "\<exists>val. (key, val) \<in> set kvs \<and> \<not> startswith key ''@''
                 \<and> (val = JStr '''' \<or> val = JNull)"
    if "''Empty value for key: '' @ key \<in> set ?issues" for key
  proof -
    from that have "''Empty value for key: '' @ key
        \<in> empty_issue ` set (filter is_empty_entry kvs)"
      unfolding shape by (auto split: if_splits)
    then obtain kv where kv: "kv \<in> set kvs" "is_empty_entry kv"
      "''Empty value for key: '' @ key = empty_issue kv"
      by auto
    obtain k v where "kv = (k, v)" by (cases kv)
    with kv have "(k, v) \<in> set kvs" "\<not> startswith k ''@''" "v = JStr '''' \<or> v = JNull"
      "key = k"
      by (simp_all add: is_empty_entry_def empty_issue_def)
    then show ?thesis by blast
  qed
  have count: "length (filter (\<lambda>k. \<not> startswith k ''@'') (map fst kvs)) =
      length (filter (\<lambda>kv. \<not> startswith (fst kv) ''@'') kvs)"
    by (simp add: filter_map comp_def)
  have clean: "?issues = []"
    if "''@@locale'' \<in> fst ` set kvs"
      "\<forall>kv \<in> set kvs. startswith (fst kv) ''@'' \<or> (snd kv \<noteq> JStr '''' \<and> snd kv \<noteq> JNull)"
  proof -
    from that(2) have "filter is_empty_entry kvs = []"
      by (auto simp: filter_empty_conv is_empty_entry_def)
    with that(1) show ?thesis unfolding shape by simp
  qed
  show ?thesis
    unfolding resp count using only clean by blast
qed

text \<open>The witness: the bundle \<^verbatim>\<open>{"@@locale": "en", "a": 5}\<close> is reported valid, with one key.\<close>

theorem validate_flags_only_empty_witness:
  "validate (Inr (JObj [(''content'', JObj [(''@@locale'', JStr ''en''), (''a'', JNum 5)])])) =
     ValidateResponse True [] 1"
proof -
  let ?kvs = "[(''@@locale'', JStr ''en''), (''a'', JNum 5)]"
  have "\<exists>valid issues keyCount.
      validate (Inr (JObj [(''content'', JObj ?kvs)])) = ValidateResponse valid issues keyCount
      \<and> (\<forall>key. ''Empty value for key: '' @ key \<in> set issues \<longrightarrow>
            (\<exists>val. (key, val) \<in> set ?kvs \<and> \<not> startswith key ''@''
               \<and> (val = JStr '''' \<or> val = JNull)))
      \<and> keyCount = length (filter (\<lambda>kv. \<not> startswith (fst kv) ''@'') ?kvs)
      \<and> (''@@locale'' \<in> fst ` set ?kvs
           \<and> (\<forall>kv \<in> set ?kvs. startswith (fst kv) ''@''
                  \<or> (snd kv \<noteq> JStr '''' \<and> snd kv \<noteq> JNull))
          \<longrightarrow> valid)"
    by (rule validate_flags_only_empty[OF refl]) simp_all
  then obtain valid issues keyCount where
    r: "validate (Inr (JObj [(''content'', JObj ?kvs)])) = ValidateResponse valid issues keyCount"
    and k: "keyCount = length (filter (\<lambda>kv. \<not> startswith (fst kv) ''@'') ?kvs)"
    and v: "''@@locale'' \<in> fst ` set ?kvs
        \<and> (\<forall>kv \<in> set ?kvs. startswith (fst kv) ''@''
               \<or> (snd kv \<noteq> JStr '''' \<and> snd kv \<noteq> JNull))
       \<longrightarrow> valid"
    by blast
  from v have "valid" by (simp add: startswith_def)
  moreover from k have "keyCount = 1" by (simp add: startswith_def)
  moreover have "validate (Inr (JObj [(''content'', JObj ?kvs)])) =
      ValidateResponse (collect_issues (JObj ?kvs) = []) (collect_issues (JObj ?kvs)) 1"
    by (simp add: validate_def startswith_def)
  ultimately show ?thesis using r by simp
qed

section \<open>Facts about the translate handler\<close>

lemma provider_calls_append:
  "provider_calls (xs @ ys) = provider_calls xs @ provider_calls ys"
  by (induction xs rule: provider_calls.induct) simp_all

lemma removals_append: "removals (xs @ ys) = removals xs @ removals ys"
  by (induction xs rule: removals.induct) simp_all

lemma call_trace: "call ev f s = (r, s1) \<Longrightarrow> trace s1 = trace s @ [ev]"
  by (auto simp: call_def split: prod.splits)

lemma try_translate_trace:
  assumes "try_translate env source_path language results s = (r, s1)"
  shows "provider_calls (trace s1) = provider_calls (trace s) @ [(source_path, language)]
         \<and> removals (trace s1) = removals (trace s)"
  using assms
  by (auto simp: try_translate_def provider_calls_append removals_append
      dest!: call_trace split: prod.splits sum.splits)

lemma attempt_trace:
  assumes "attempt env source_path language results s = (r, s1)"
  shows "provider_calls (trace s1) = provider_calls (trace s) @ [(source_path, language)]
         \<and> removals (trace s1) = removals (trace s)"
  using assms
  by (auto simp: attempt_def dest!: try_translate_trace split: prod.splits sum.splits)

lemma translate_loop_removals:
  "translate_loop env source_path xs results s = (r, s1)
   \<Longrightarrow> removals (trace s1) = removals (trace s)"
proof (induction xs arbitrary: results s)
  case Nil
  then show ?case by simp
next
  case (Cons x xs)
  then show ?case
    by (auto split: prod.splits sum.splits dest!: attempt_trace)
qed

lemma translate_loop_append:
  "translate_loop env source_path (xs @ ys) results s =
     (case translate_loop env source_path xs results s of
        (Inl e, s1) \<Rightarrow> (Inl e, s1)
      | (Inr results1, s1) \<Rightarrow> translate_loop env source_path ys results1 s1)"
  by (induction xs arbitrary: results s) (auto split: prod.splits sum.splits)

lemma dict_lookup_update:
  "dict_lookup (dict_update d k v) k' = (if py_key_eq k k' then Some v else dict_lookup d k')"
  by (induction d k v rule: dict_update.induct) (auto simp: py_key_eq_def)

lemma attempt_lookup:
  assumes "attempt env source_path language results s = (Inr results1, s1)"
  shows "\<exists>out. results1 = dict_update results language out"
  using assms
  by (auto simp: attempt_def try_translate_def setitem_def split: prod.splits sum.splits if_splits)

lemma prepare_trace:
  assumes "prepare env got s = (r, s3)"
  shows "provider_calls (trace s3) = provider_calls (trace s)
         \<and> removals (trace s3) = removals (trace s)"
  using assms
  by (auto simp: prepare_def provider_calls_append removals_append
      dest!: call_trace split: prod.splits sum.splits option.splits if_splits)

lemma py_iter_len: "py_iter languages = Inr xs \<Longrightarrow> py_len languages = Inr (length xs)"
  by (cases languages) auto

lemma try_translate_unlink:
  "try_translate (env\<lparr>unlink := u\<rparr>) source_path language results s =
     try_translate env source_path language results s"
  by (simp add: try_translate_def split: prod.splits sum.splits)

lemma translate_loop_unlink:
  "translate_loop (env\<lparr>unlink := u\<rparr>) source_path xs results s =
     translate_loop env source_path xs results s"
  by (induction xs arbitrary: results s)
     (simp_all add: attempt_def try_translate_unlink split: prod.splits sum.splits)

lemma prepare_unlink: "prepare (env\<lparr>unlink := u\<rparr>) got s = prepare env got s"
  by (simp add: prepare_def split: prod.splits sum.splits option.splits)

lemma translate_languages_result:
  "fst (translate_languages env source_path languages s) =
     fst (case py_iter languages of
            Inl e \<Rightarrow> (Inl e, s)
          | Inr xs \<Rightarrow> translate_loop env source_path xs [] s)"
  by (simp add: translate_languages_def split: prod.splits sum.splits)

lemma translate_languages_trace:
  assumes "translate_languages env source_path languages s = (r, s2)"
  shows "removals (trace s2) = removals (trace s) @ [source_path]
         \<and> last (trace s2) = Unlink source_path"
  using assms
  by (auto simp: translate_languages_def removals_append
      dest!: call_trace translate_loop_removals split: prod.splits sum.splits)

text \<open>
  A request passes the preconditions and the staging exactly when \<open>prepare\<close> returns
  the content, the languages and the path of the source file: the body is a JSON object,
  content and languages count as true, the translator is there, and the temporary file
  is created, written and closed.
\<close>

lemma prepare_staged_iff:
  "prepare env got s = (Inr (content, languages, source_path), s3) \<longleftrightarrow>
     (\<exists>d w1 w2 w3.
        got = Inr (JObj d)
        \<and> py_get (JObj d) ''content'' (JObj []) = Inr content \<and> truthy content
        \<and> py_get (JObj d) ''languages'' (JArr []) = Inr languages \<and> truthy languages
        \<and> get_translator env (world s) = (None, w1)
        \<and> NamedTemporaryFile env w1 = (Inr source_path, w2)
        \<and> dump env content source_path w2 = (None, w3)
        \<and> s3 = \<lparr>world = w3, trace = trace s @ [GetTranslator, CreateTemp, Dump source_path]\<rparr>)"
proof
  assume p: "prepare env got s = (Inr (content, languages, source_path), s3)"
  then obtain data where got: "got = Inr data"
    by (cases got) (simp_all add: prepare_def)
  with p have "truthy data"
    by (auto simp: prepare_def split: if_splits)
  with p got obtain d where data: "data = JObj d"
    by (cases data) (simp_all add: prepare_def)
  from p show "\<exists>d w1 w2 w3.
        got = Inr (JObj d)
        \<and> py_get (JObj d) ''content'' (JObj []) = Inr content \<and> truthy content
        \<and> py_get (JObj d) ''languages'' (JArr []) = Inr languages \<and> truthy languages
        \<and> get_translator env (world s) = (None, w1)
        \<and> NamedTemporaryFile env w1 = (Inr source_path, w2)
        \<and> dump env content source_path w2 = (None, w3)
        \<and> s3 = \<lparr>world = w3, trace = trace s @ [GetTranslator, CreateTemp, Dump source_path]\<rparr>"
    unfolding got data
    by (auto simp: prepare_def call_def split: if_splits prod.splits sum.splits option.splits)
next
  assume "\<exists>d w1 w2 w3.
        got = Inr (JObj d)
        \<and> py_get (JObj d) ''content'' (JObj []) = Inr content \<and> truthy content
        \<and> py_get (JObj d) ''languages'' (JArr []) = Inr languages \<and> truthy languages
        \<and> get_translator env (world s) = (None, w1)
        \<and> NamedTemporaryFile env w1 = (Inr source_path, w2)
        \<and> dump env content source_path w2 = (None, w3)
        \<and> s3 = \<lparr>world = w3, trace = trace s @ [GetTranslator, CreateTemp, Dump source_path]\<rparr>"
  then show "prepare env got s = (Inr (content, languages, source_path), s3)"
    by (auto simp: prepare_def call_def)
qed

lemma prepare_early:
  "prepare env got s = (Inl r, s1) \<Longrightarrow> \<exists>code msg. r = ErrorResponse code msg"
  by (auto simp: prepare_def translate_failed_def
      split: if_splits prod.splits sum.splits option.splits)

lemma length_dict_update: "length (dict_update d k v) \<le> Suc (length d)"
  by (induction d k v rule: dict_update.induct) auto

lemma translate_loop_length:
  "translate_loop env source_path xs results s = (Inr results1, s1)
   \<Longrightarrow> length results1 \<le> length results + length xs"
proof (induction xs arbitrary: results s)
  case Nil
  then show ?case by simp
next
  case (Cons x xs)
  from Cons.prems obtain r s2 where
    a: "attempt env source_path x results s = (Inr r, s2)"
    and l: "translate_loop env source_path xs r s2 = (Inr results1, s1)"
    by (auto split: prod.splits sum.splits)
  from attempt_lookup[OF a] obtain out where "r = dict_update results x out" by blast
  then have "length r \<le> Suc (length results)" by (simp add: length_dict_update)
  with Cons.IH[OF l] show ?case by simp
qed

lemma demo_prepare:
  assumes "truthy content" "truthy languages"
  shows "prepare demo_env (request content languages) start =
     (Inr (content, languages, ''/tmp/source.arb''),
      \<lparr>world = 0, trace = [GetTranslator, CreateTemp, Dump ''/tmp/source.arb'']\<rparr>)"
  using assms by (simp add: prepare_def request_def start_def demo_env_def call_def)

lemma demo_attempt:
  "attempt demo_env source_path (JStr code) results \<lparr>world = w, trace = t\<rparr> =
     (if code = ''fr''
      then (Inr (dict_update results (JStr code) (Failed ''provider down'')),
            \<lparr>world = Suc w, trace = t @ [Generate source_path (JStr code)]\<rparr>)
      else (Inr (dict_update results (JStr code)
                  (Translated (JObj [(''a'', JStr ''b'')])
                     (if w = 0 then ''/tmp/first.arb'' else ''/tmp/later.arb''))),
            \<lparr>world = Suc w,
             trace = t @ [Generate source_path (JStr code),
                          Load (if w = 0 then ''/tmp/first.arb'' else ''/tmp/later.arb'')]\<rparr>))"
  by (simp add: attempt_def try_translate_def demo_env_def call_def setitem_def)

lemma is_str_hashable: "is_str l \<Longrightarrow> hashable l"
  by (cases l) simp_all

lemma py_key_eq_str: "is_str l \<Longrightarrow> py_key_eq l k \<longleftrightarrow> l = k"
  by (cases l; cases k) (simp_all add: py_key_eq_def)

lemma attempt_spec:
  assumes "hashable language"
    and "spec_outcome env source_path language s = (out, s1)"
  shows "attempt env source_path language results s =
           (Inr (dict_update results language out), s1)"
  using assms
  by (auto simp: attempt_def try_translate_def spec_outcome_def setitem_def
      split: prod.splits sum.splits)

lemma written_snoc: "written (outs @ [(l, out)]) = dict_update (written outs) l out"
  by (simp add: written_def)

lemma translate_loop_spec:
  assumes "\<forall>l \<in> set xs. hashable l"
    and "spec_outcomes env source_path xs s = (outs, s1)"
  shows "translate_loop env source_path xs (written earlier) s =
           (Inr (written (earlier @ outs)), s1)"
  using assms
proof (induction xs arbitrary: earlier s outs s1)
  case Nil
  then show ?case by simp
next
  case (Cons x xs)
  obtain out s2 where o: "spec_outcome env source_path x s = (out, s2)"
    by (cases "spec_outcome env source_path x s")
  obtain rest s3 where r: "spec_outcomes env source_path xs s2 = (rest, s3)"
    by (cases "spec_outcomes env source_path xs s2")
  from Cons.prems(2) o r have outs: "outs = (x, out) # rest" and s1: "s1 = s3"
    by simp_all
  from Cons.prems(1) have hx: "hashable x" and hxs: "\<forall>l \<in> set xs. hashable l"
    by simp_all
  have a: "attempt env source_path x (written earlier) s =
      (Inr (written (earlier @ [(x, out)])), s2)"
    using attempt_spec[OF hx o] by (simp add: written_snoc)
  from Cons.IH[OF hxs r, of "earlier @ [(x, out)]"] a show ?case
    by (simp add: outs s1)
qed

lemma spec_outcomes_keys:
  "spec_outcomes env source_path xs s = (outs, s1) \<Longrightarrow> map fst outs = xs"
  by (induction xs arbitrary: s outs s1) (auto split: prod.splits)

lemma spec_outcome_trace:
  assumes "spec_outcome env source_path language s = (out, s1)"
  shows "provider_calls (trace s1) = provider_calls (trace s) @ [(source_path, language)]
         \<and> removals (trace s1) = removals (trace s)"
  using assms
  by (auto simp: spec_outcome_def provider_calls_append removals_append
      dest!: call_trace split: prod.splits sum.splits)

lemma spec_outcomes_trace:
  "spec_outcomes env source_path xs s = (outs, s1)
   \<Longrightarrow> provider_calls (trace s1) = provider_calls (trace s) @ map (Pair source_path) xs
       \<and> removals (trace s1) = removals (trace s)"
proof (induction xs arbitrary: s outs s1)
  case Nil
  then show ?case by simp
next
  case (Cons x xs)
  obtain out s2 where o: "spec_outcome env source_path x s = (out, s2)"
    by (cases "spec_outcome env source_path x s")
  obtain rest s3 where r: "spec_outcomes env source_path xs s2 = (rest, s3)"
    by (cases "spec_outcomes env source_path xs s2")
  from Cons.prems o r have "s1 = s3" by simp
  with spec_outcome_trace[OF o] Cons.IH[OF r] show ?case by simp
qed

lemma spec_outcomes_append:
  "spec_outcomes env source_path (xs @ ys) s =
     (case spec_outcomes env source_path xs s of
        (a, s1) \<Rightarrow>
          (case spec_outcomes env source_path ys s1 of
             (b, s2) \<Rightarrow> (a @ b, s2)))"
  by (induction xs arbitrary: s) (auto split: prod.splits)

lemma dict_update_keys: "fst ` set (dict_update d k v) \<subseteq> insert k (fst ` set d)"
  by (induction d k v rule: dict_update.induct) auto

lemma written_keys: "fst ` set (written outs) \<subseteq> fst ` set outs"
proof (induction outs rule: rev_induct)
  case Nil
  then show ?case by (simp add: written_def)
next
  case (snoc lo outs)
  obtain l out where lo: "lo = (l, out)" by (cases lo)
  from dict_update_keys[of "written outs" l out] snoc show ?case
    unfolding lo written_snoc by auto
qed

lemma sortable_strings: "\<forall>k \<in> set ks. is_str k \<Longrightarrow> sortable ks"
proof (cases ks rule: sortable.cases)
  case (3 k k1 ks1)
  assume a: "\<forall>k \<in> set ks. is_str k"
  have kind: "key_kind j = 0" if "is_str j" for j
    using that by (cases j) simp_all
  from a 3 show ?thesis
    by (auto simp: list_all_iff kind)
qed simp_all

lemma lookup_written:
  assumes "\<forall>l \<in> fst ` set outs. is_str l"
  shows "dict_lookup (written outs) k = map_of (rev outs) k"
  using assms
proof (induction outs rule: rev_induct)
  case Nil
  then show ?case by (simp add: written_def)
next
  case (snoc lo outs)
  obtain l out where lo: "lo = (l, out)" by (cases lo)
  from snoc.prems lo have "is_str l" by simp
  then have "py_key_eq l k \<longleftrightarrow> l = k" by (rule py_key_eq_str)
  moreover from snoc have "dict_lookup (written outs) k = map_of (rev outs) k" by simp
  ultimately show ?case
    unfolding lo written_snoc by (auto simp: dict_lookup_update)
qed

lemma last_written:
  assumes "\<forall>l \<in> fst ` set outs. is_str l"
    and "outs = a @ (l, out) # b" and "l \<notin> fst ` set b"
  shows "dict_lookup (written outs) l = Some out"
proof -
  from assms(3) have "map_of (rev b) l = None"
    by (simp add: map_of_eq_None_iff)
  then have "map_of (rev outs) l = Some out"
    unfolding assms(2) by (simp add: map_add_def)
  with lookup_written[OF assms(1)] show ?thesis by simp
qed

lemma translate_staged:
  assumes "prepare env got s = (Inr (content, languages, source_path), s3)"
  shows "translate env got s =
     (case translate_languages env source_path languages s3 of
        (Inl e, s2) \<Rightarrow> (translate_failed e, s2)
      | (Inr results, s2) \<Rightarrow>
          (case translate_response env languages results of
             Inl e \<Rightarrow> (translate_failed e, s2)
           | Inr r \<Rightarrow> (r, s2)))"
  using assms by (simp add: translate_def)

lemma translate_loop_result:
  assumes prep: "prepare env got s = (Inr (content, languages, source_path), s3)"
    and iter: "py_iter languages = Inr xs"
    and loop: "translate_loop env source_path xs [] s3 = (Inr results, s6)"
    and keys: "sortable (map fst results)"
  shows "translate env got s =
           (TranslateResponse results
              \<lparr>totalLanguages = length xs,
               successful = length (filter (\<lambda>r. success r) (map snd results)),
               failed = length (filter (\<lambda>r. \<not> success r) (map snd results))\<rparr>,
            snd (call (Unlink source_path) (unlink env source_path) s6))"
proof -
  have "translate_languages env source_path languages s3 =
      (Inr results, snd (call (Unlink source_path) (unlink env source_path) s6))"
    by (simp add: translate_languages_def iter loop split: prod.splits)
  then show ?thesis
    using keys
    by (simp add: translate_staged[OF prep] translate_response_def py_iter_len[OF iter])
qed

text \<open>
  The code against the specification, for a staged request whose languages are strings:
  the response holds exactly the outcomes of the specification's attempts, written in
  their order, with the summary counted as lines 111 to 115 count it; and the call ends
  in the world the one removal of the source file leaves.
\<close>

lemma translate_codes:
  assumes prep: "prepare env got s = (Inr (content, languages, source_path), s3)"
    and iter: "py_iter languages = Inr xs"
    and codes: "\<forall>l \<in> set xs. is_str l"
    and outs: "spec_outcomes env source_path xs s3 = (outs, s6)"
  shows "translate env got s =
           (TranslateResponse (written outs)
              \<lparr>totalLanguages = length xs,
               successful = length (filter (\<lambda>r. success r) (map snd (written outs))),
               failed = length (filter (\<lambda>r. \<not> success r) (map snd (written outs)))\<rparr>,
            snd (call (Unlink source_path) (unlink env source_path) s6))"
proof -
  from codes have h: "\<forall>l \<in> set xs. hashable l"
    by (simp add: is_str_hashable)
  have "translate_loop env source_path xs (written []) s3 = (Inr (written ([] @ outs)), s6)"
    using h outs by (rule translate_loop_spec)
  then have loop: "translate_loop env source_path xs [] s3 = (Inr (written outs), s6)"
    by (simp add: written_def)
  from spec_outcomes_keys[OF outs] have "fst ` set outs = set xs"
    by (metis set_map)
  with written_keys[of outs] codes have "\<forall>k \<in> set (map fst (written outs)). is_str k"
    by auto
  then have "sortable (map fst (written outs))"
    by (rule sortable_strings)
  with prep iter loop show ?thesis
    by (rule translate_loop_result)
qed

lemma summary_counts_entries:
  assumes "translate env got s = (TranslateResponse results summ, sf)"
  shows "successful summ + failed summ = length results"
proof -
  have "length (filter (\<lambda>r. success r) xs) + length (filter (\<lambda>r. \<not> success r) xs) = length xs"
    for xs :: "outcome list"
    by (rule sum_length_filter_compl)
  from this[of "map snd results"] assms show ?thesis
    by (auto simp: translate_def translate_response_def translate_failed_def
        dest: prepare_early split: prod.splits sum.splits if_splits)
qed

lemma demo_outcome:
  "spec_outcome demo_env source_path (JStr code) \<lparr>world = w, trace = t\<rparr> =
     (if code = ''fr''
      then (Failed ''provider down'',
            \<lparr>world = Suc w, trace = t @ [Generate source_path (JStr code)]\<rparr>)
      else (Translated (JObj [(''a'', JStr ''b'')])
              (if w = 0 then ''/tmp/first.arb'' else ''/tmp/later.arb''),
            \<lparr>world = Suc w,
             trace = t @ [Generate source_path (JStr code),
                          Load (if w = 0 then ''/tmp/first.arb'' else ''/tmp/later.arb'')]\<rparr>))"
  by (simp add: spec_outcome_def demo_env_def call_def)

text \<open>
  A language that is not hashable (a list, a dict) cannot be a key of \<^verbatim>\<open>results\<close>: the
  assignment in the \<^verbatim>\<open>except\<close> clause raises as the one in the \<^verbatim>\<open>try\<close> did, the loop
  is left, the languages after it are not attempted, the source file is removed and the
  answer is the 500 response.
\<close>

lemma unhashable_language_aborts:
  "translate demo_env
     (request (JObj [(''a'', JStr ''b'')]) (JArr [JArr [JStr ''es''], JStr ''de''])) start =
     (ErrorResponse 500 (''Translation failed: unhashable type: '' @ quoted ''list''),
      \<lparr>world = 1,
       trace = [GetTranslator, CreateTemp, Dump ''/tmp/source.arb'',
                Generate ''/tmp/source.arb'' (JArr [JStr ''es'']), Load ''/tmp/first.arb'',
                Unlink ''/tmp/source.arb'']\<rparr>)"
proof -
  have p: "prepare demo_env
      (request (JObj [(''a'', JStr ''b'')]) (JArr [JArr [JStr ''es''], JStr ''de''])) start =
     (Inr (JObj [(''a'', JStr ''b'')], JArr [JArr [JStr ''es''], JStr ''de''],
           ''/tmp/source.arb''),
      \<lparr>world = 0, trace = [GetTranslator, CreateTemp, Dump ''/tmp/source.arb'']\<rparr>)"
    by (rule demo_prepare) simp_all
  show ?thesis
    unfolding translate_staged[OF p]
    by (simp add: translate_languages_def attempt_def try_translate_def demo_env_def
        call_def setitem_def translate_failed_def)
qed

text \<open>
  Languages that are hashable but not all of one kind, a string and a number: both are
  attempted and written, the source file is removed, and then \<^verbatim>\<open>jsonify\<close> raises on the
  keys of \<^verbatim>\<open>results\<close>, inside the outer \<^verbatim>\<open>try\<close>: the answer is the 500 response. The
  facts below about the languages of a request are stated for strings, the language
  codes of the specification.
\<close>

lemma mixed_keys_fail:
  "translate demo_env
     (request (JObj [(''a'', JStr ''b'')]) (JArr [JStr ''es'', JNum 1])) start =
     (ErrorResponse 500 ''Translation failed: keys do not compare'',
      \<lparr>world = 2,
       trace = [GetTranslator, CreateTemp, Dump ''/tmp/source.arb'',
                Generate ''/tmp/source.arb'' (JStr ''es''), Load ''/tmp/first.arb'',
                Generate ''/tmp/source.arb'' (JNum 1), Load ''/tmp/later.arb'',
                Unlink ''/tmp/source.arb'']\<rparr>)"
proof -
  have p: "prepare demo_env
      (request (JObj [(''a'', JStr ''b'')]) (JArr [JStr ''es'', JNum 1])) start =
     (Inr (JObj [(''a'', JStr ''b'')], JArr [JStr ''es'', JNum 1], ''/tmp/source.arb''),
      \<lparr>world = 0, trace = [GetTranslator, CreateTemp, Dump ''/tmp/source.arb'']\<rparr>)"
    by (rule demo_prepare) simp_all
  show ?thesis
    unfolding translate_staged[OF p]
    by (simp add: translate_languages_def attempt_def try_translate_def demo_env_def
        call_def setitem_def translate_failed_def translate_response_def py_key_eq_def)
qed

text \<open>
  \<^bold>\<open>C1\<close>. Take a request that passes the preconditions and the staging, whose languages
  are strings, and any one of them, \<open>language\<close>, at any place of the list; \<open>outs_pre\<close>
  and \<open>outs_post\<close> are the outcomes the specification's attempts give for the languages
  before and after it. If the call of the provider for \<open>language\<close> raises \<open>e\<close>, or the
  reading of the file the provider named does, then: the loop reaches the pass of
  \<open>language\<close> with the outcomes before it written; that pass ends normally with
  \<^verbatim>\<open>Failed\<close> and the message of \<open>e\<close> written under \<open>language\<close> (nothing is
  propagated); the handler answers with status 200, and its results are exactly the
  outcomes of all the attempts, those before, the failure, and those after, each what
  the provider and the reading gave for its own language, written in the order of the
  request; the provider has been called for every language, in that order; the results
  hold for every code the outcome of its last attempt; and the summary is the one lines
  111 to 115 count over these results.
\<close>

theorem partial_failure_isolation:
  assumes prep: "prepare env got s = (Inr (content, languages, source_path), s3)"
    and iter: "py_iter languages = Inr (pre @ language # post)"
    and codes: "\<forall>l \<in> set (pre @ language # post). is_str l"
    and before: "spec_outcomes env source_path pre s3 = (outs_pre, s4)"
    and raises:
      "call (Generate source_path language)
          (generate_for_language env source_path language) s4 = (Inl e, s5)
       \<or> (\<exists>target_path s'.
             call (Generate source_path language)
               (generate_for_language env source_path language) s4 = (Inr target_path, s')
             \<and> call (Load target_path) (load env target_path) s' = (Inl e, s5))"
    and after: "spec_outcomes env source_path post s5 = (outs_post, s6)"
    and outs: "outs = outs_pre @ (language, Failed (str e)) # outs_post"
  shows "translate_loop env source_path pre [] s3 = (Inr (written outs_pre), s4)
         \<and> attempt env source_path language (written outs_pre) s4 =
             (Inr (dict_update (written outs_pre) language (Failed (str e))), s5)
         \<and> translate env got s =
             (TranslateResponse (written outs)
                \<lparr>totalLanguages = length (pre @ language # post),
                 successful = length (filter (\<lambda>r. success r) (map snd (written outs))),
                 failed = length (filter (\<lambda>r. \<not> success r) (map snd (written outs)))\<rparr>,
              snd (call (Unlink source_path) (unlink env source_path) s6))
         \<and> status (fst (translate env got s)) = 200
         \<and> map fst outs = pre @ language # post
         \<and> provider_calls (trace s6) =
             provider_calls (trace s) @ map (Pair source_path) (pre @ language # post)
         \<and> (\<forall>l. dict_lookup (written outs) l = map_of (rev outs) l)"
proof -
  let ?xs = "pre @ language # post"
  from codes have hpre: "\<forall>l \<in> set pre. hashable l" and hl: "hashable language"
    by (simp_all add: is_str_hashable)
  from raises have own: "spec_outcome env source_path language s4 = (Failed (str e), s5)"
    by (auto simp: spec_outcome_def)
  have "translate_loop env source_path pre (written []) s3 =
      (Inr (written ([] @ outs_pre)), s4)"
    using hpre before by (rule translate_loop_spec)
  then have loop: "translate_loop env source_path pre [] s3 = (Inr (written outs_pre), s4)"
    by (simp add: written_def)
  have att: "attempt env source_path language (written outs_pre) s4 =
      (Inr (dict_update (written outs_pre) language (Failed (str e))), s5)"
    using hl own by (rule attempt_spec)
  have whole: "spec_outcomes env source_path ?xs s3 = (outs, s6)"
    by (simp add: spec_outcomes_append before own after outs)
  have resp: "translate env got s =
      (TranslateResponse (written outs)
         \<lparr>totalLanguages = length ?xs,
          successful = length (filter (\<lambda>r. success r) (map snd (written outs))),
          failed = length (filter (\<lambda>r. \<not> success r) (map snd (written outs)))\<rparr>,
       snd (call (Unlink source_path) (unlink env source_path) s6))"
    using prep iter codes whole by (rule translate_codes)
  then have st: "status (fst (translate env got s)) = 200"
    by simp
  have keys: "map fst outs = ?xs"
    using whole by (rule spec_outcomes_keys)
  have calls: "provider_calls (trace s6) = provider_calls (trace s) @ map (Pair source_path) ?xs"
    using spec_outcomes_trace[OF whole] prepare_trace[OF prep] by simp
  from keys have "fst ` set outs = set ?xs"
    by (metis set_map)
  with codes have "\<forall>l \<in> fst ` set outs. is_str l"
    by simp
  then have look: "dict_lookup (written outs) l = map_of (rev outs) l" for l
    by (rule lookup_written)
  show ?thesis
    using loop att resp st keys calls look by blast
qed

text \<open>
  The witness: the languages \<^verbatim>\<open>["es", "fr", "de"]\<close> with the provider down for French.
  German, after the failure, is translated.
\<close>

theorem partial_failure_isolation_witness:
  "translate demo_env
     (request (JObj [(''a'', JStr ''b'')]) (JArr [JStr ''es'', JStr ''fr'', JStr ''de''])) start =
     (TranslateResponse
        [(JStr ''es'', Translated (JObj [(''a'', JStr ''b'')]) ''/tmp/first.arb''),
         (JStr ''fr'', Failed ''provider down''),
         (JStr ''de'', Translated (JObj [(''a'', JStr ''b'')]) ''/tmp/later.arb'')]
        \<lparr>totalLanguages = 3, successful = 2, failed = 1\<rparr>,
      \<lparr>world = 3,
       trace = [GetTranslator, CreateTemp, Dump ''/tmp/source.arb'',
                Generate ''/tmp/source.arb'' (JStr ''es''), Load ''/tmp/first.arb'',
                Generate ''/tmp/source.arb'' (JStr ''fr''),
                Generate ''/tmp/source.arb'' (JStr ''de''), Load ''/tmp/later.arb'',
                Unlink ''/tmp/source.arb'']\<rparr>)"
proof -
  let ?content = "JObj [(''a'', JStr ''b'')]"
  let ?languages = "JArr [JStr ''es'', JStr ''fr'', JStr ''de'']"
  let ?src = "''/tmp/source.arb''"
  let ?t3 = "[GetTranslator, CreateTemp, Dump ?src]"
  let ?t4 = "?t3 @ [Generate ?src (JStr ''es''), Load ''/tmp/first.arb'']"
  let ?t5 = "?t4 @ [Generate ?src (JStr ''fr'')]"
  let ?t6 = "?t5 @ [Generate ?src (JStr ''de''), Load ''/tmp/later.arb'']"
  let ?pre = "[(JStr ''es'', Translated ?content ''/tmp/first.arb'')]"
  let ?post = "[(JStr ''de'', Translated ?content ''/tmp/later.arb'')]"
  have p: "prepare demo_env (request ?content ?languages) start =
     (Inr (?content, ?languages, ?src), \<lparr>world = 0, trace = ?t3\<rparr>)"
    by (rule demo_prepare) simp_all
  have i: "py_iter ?languages = Inr ([JStr ''es''] @ JStr ''fr'' # [JStr ''de''])"
    by simp
  have c: "\<forall>l \<in> set ([JStr ''es''] @ JStr ''fr'' # [JStr ''de'']). is_str l"
    by simp
  have b: "spec_outcomes demo_env ?src [JStr ''es''] \<lparr>world = 0, trace = ?t3\<rparr> =
      (?pre, \<lparr>world = 1, trace = ?t4\<rparr>)"
    by (simp add: demo_outcome)
  have r: "call (Generate ?src (JStr ''fr''))
        (generate_for_language demo_env ?src (JStr ''fr'')) \<lparr>world = 1, trace = ?t4\<rparr> =
        (Inl (PyExn ''provider down''), \<lparr>world = 2, trace = ?t5\<rparr>)
      \<or> (\<exists>target_path s'.
            call (Generate ?src (JStr ''fr''))
              (generate_for_language demo_env ?src (JStr ''fr'')) \<lparr>world = 1, trace = ?t4\<rparr> =
              (Inr target_path, s')
            \<and> call (Load target_path) (load demo_env target_path) s' =
              (Inl (PyExn ''provider down''), \<lparr>world = 2, trace = ?t5\<rparr>))"
    by (simp add: call_def demo_env_def)
  have a: "spec_outcomes demo_env ?src [JStr ''de''] \<lparr>world = 2, trace = ?t5\<rparr> =
      (?post, \<lparr>world = 3, trace = ?t6\<rparr>)"
    by (simp add: demo_outcome)
  from partial_failure_isolation[OF p i c b r a refl]
  have "translate demo_env (request ?content ?languages) start =
     (TranslateResponse
        (written (?pre @ (JStr ''fr'', Failed (str (PyExn ''provider down''))) # ?post))
        \<lparr>totalLanguages = length ([JStr ''es''] @ JStr ''fr'' # [JStr ''de'']),
         successful = length (filter (\<lambda>r. success r) (map snd
           (written (?pre @ (JStr ''fr'', Failed (str (PyExn ''provider down''))) # ?post)))),
         failed = length (filter (\<lambda>r. \<not> success r) (map snd
           (written (?pre @ (JStr ''fr'', Failed (str (PyExn ''provider down''))) # ?post))))\<rparr>,
      snd (call (Unlink ?src) (unlink demo_env ?src) \<lparr>world = 3, trace = ?t6\<rparr>))"
    by blast
  then show ?thesis
    by (simp add: written_def py_key_eq_def call_def demo_env_def)
qed

text \<open>
  \<^bold>\<open>C2\<close> (the code departs from the claim). \<^verbatim>\<open>totalLanguages\<close> is the length of the
  list of the request, but \<^verbatim>\<open>successful\<close> and \<^verbatim>\<open>failed\<close> are counted over the values of
  the dict \<^verbatim>\<open>results\<close>, which holds one entry for each different code
  (\<open>summary_counts_entries\<close>, \<open>translate_loop_length\<close>). For the languages
  \<^verbatim>\<open>["es", "es"]\<close>, both translated, the summary is 2 in total, 1 successful, 0 failed.
\<close>

theorem duplicate_language_summary:
  "fst (translate demo_env
          (request (JObj [(''a'', JStr ''b'')]) (JArr [JStr ''es'', JStr ''es''])) start) =
     TranslateResponse
       [(JStr ''es'', Translated (JObj [(''a'', JStr ''b'')]) ''/tmp/later.arb'')]
       \<lparr>totalLanguages = 2, successful = 1, failed = 0\<rparr>"
proof -
  let ?content = "JObj [(''a'', JStr ''b'')]"
  let ?languages = "JArr [JStr ''es'', JStr ''es'']"
  let ?src = "''/tmp/source.arb''"
  let ?t3 = "[GetTranslator, CreateTemp, Dump ?src]"
  have p: "prepare demo_env (request ?content ?languages) start =
     (Inr (?content, ?languages, ?src), \<lparr>world = 0, trace = ?t3\<rparr>)"
    by (rule demo_prepare) simp_all
  have l: "translate_loop demo_env ?src [JStr ''es'', JStr ''es''] [] \<lparr>world = 0, trace = ?t3\<rparr> =
      (Inr [(JStr ''es'', Translated ?content ''/tmp/later.arb'')],
       \<lparr>world = 2,
        trace = ?t3 @ [Generate ?src (JStr ''es''), Load ''/tmp/first.arb'',
                       Generate ?src (JStr ''es''), Load ''/tmp/later.arb'']\<rparr>)"
    by (simp add: demo_attempt py_key_eq_def)
  have "py_iter ?languages = Inr [JStr ''es'', JStr ''es'']"
    by simp
  from translate_loop_result[OF p this l] show ?thesis
    by simp
qed

text \<open>
  \<^bold>\<open>C5\<close>. For a staged request whose languages are strings, the handler answers with
  the results of one attempt for each element of the list, in the order of the list,
  duplicates included: \<open>outs\<close> holds one outcome for each element, the provider has been
  called once for each element in that order, and the results of the response are these
  outcomes written in that order. So the results hold for every code the outcome of the
  last attempt made for it: when the same code appears more than once, the one written
  last.
\<close>

theorem duplicate_languages:
  assumes prep: "prepare env got s = (Inr (content, languages, source_path), s3)"
    and iter: "py_iter languages = Inr xs"
    and codes: "\<forall>l \<in> set xs. is_str l"
    and outs: "spec_outcomes env source_path xs s3 = (outs, s6)"
  shows "translate env got s =
           (TranslateResponse (written outs)
              \<lparr>totalLanguages = length xs,
               successful = length (filter (\<lambda>r. success r) (map snd (written outs))),
               failed = length (filter (\<lambda>r. \<not> success r) (map snd (written outs)))\<rparr>,
            snd (call (Unlink source_path) (unlink env source_path) s6))
         \<and> map fst outs = xs
         \<and> provider_calls (trace s6) = provider_calls (trace s) @ map (Pair source_path) xs
         \<and> (\<forall>l. dict_lookup (written outs) l = map_of (rev outs) l)
         \<and> (\<forall>a l out b. outs = a @ (l, out) # b \<and> l \<notin> fst ` set b
               \<longrightarrow> dict_lookup (written outs) l = Some out)"
proof -
  have resp: "translate env got s =
      (TranslateResponse (written outs)
         \<lparr>totalLanguages = length xs,
          successful = length (filter (\<lambda>r. success r) (map snd (written outs))),
          failed = length (filter (\<lambda>r. \<not> success r) (map snd (written outs)))\<rparr>,
       snd (call (Unlink source_path) (unlink env source_path) s6))"
    using prep iter codes outs by (rule translate_codes)
  have keys: "map fst outs = xs"
    using outs by (rule spec_outcomes_keys)
  have calls: "provider_calls (trace s6) = provider_calls (trace s) @ map (Pair source_path) xs"
    using spec_outcomes_trace[OF outs] prepare_trace[OF prep] by simp
  from keys have "fst ` set outs = set xs"
    by (metis set_map)
  with codes have strs: "\<forall>l \<in> fst ` set outs. is_str l"
    by simp
  then have look: "dict_lookup (written outs) l = map_of (rev outs) l" for l
    by (rule lookup_written)
  have last_wins: "dict_lookup (written outs) l = Some out"
    if "outs = a @ (l, out) # b" "l \<notin> fst ` set b" for a l out b
    using strs that by (rule last_written)
  show ?thesis
    using resp keys calls look last_wins by blast
qed

text \<open>
  The witness: the languages \<^verbatim>\<open>["es", "es"]\<close>. The provider is called twice and the
  response holds the file of the second call.
\<close>

theorem duplicate_languages_witness:
  "translate demo_env
     (request (JObj [(''a'', JStr ''b'')]) (JArr [JStr ''es'', JStr ''es''])) start =
     (TranslateResponse
        [(JStr ''es'', Translated (JObj [(''a'', JStr ''b'')]) ''/tmp/later.arb'')]
        \<lparr>totalLanguages = 2, successful = 1, failed = 0\<rparr>,
      \<lparr>world = 2,
       trace = [GetTranslator, CreateTemp, Dump ''/tmp/source.arb'',
                Generate ''/tmp/source.arb'' (JStr ''es''), Load ''/tmp/first.arb'',
                Generate ''/tmp/source.arb'' (JStr ''es''), Load ''/tmp/later.arb'',
                Unlink ''/tmp/source.arb'']\<rparr>)
   \<and> dict_lookup
        (written [(JStr ''es'', Translated (JObj [(''a'', JStr ''b'')]) ''/tmp/first.arb''),
                  (JStr ''es'', Translated (JObj [(''a'', JStr ''b'')]) ''/tmp/later.arb'')])
        (JStr ''es'') =
      Some (Translated (JObj [(''a'', JStr ''b'')]) ''/tmp/later.arb'')"
proof -
  let ?content = "JObj [(''a'', JStr ''b'')]"
  let ?languages = "JArr [JStr ''es'', JStr ''es'']"
  let ?src = "''/tmp/source.arb''"
  let ?t3 = "[GetTranslator, CreateTemp, Dump ?src]"
  let ?t6 = "?t3 @ [Generate ?src (JStr ''es''), Load ''/tmp/first.arb'',
                    Generate ?src (JStr ''es''), Load ''/tmp/later.arb'']"
  let ?first = "(JStr ''es'', Translated ?content ''/tmp/first.arb'')"
  let ?later = "(JStr ''es'', Translated ?content ''/tmp/later.arb'')"
  have p: "prepare demo_env (request ?content ?languages) start =
     (Inr (?content, ?languages, ?src), \<lparr>world = 0, trace = ?t3\<rparr>)"
    by (rule demo_prepare) simp_all
  have i: "py_iter ?languages = Inr [JStr ''es'', JStr ''es'']"
    by simp
  have c: "\<forall>l \<in> set [JStr ''es'', JStr ''es'']. is_str l"
    by simp
  have o: "spec_outcomes demo_env ?src [JStr ''es'', JStr ''es''] \<lparr>world = 0, trace = ?t3\<rparr> =
      ([?first, ?later], \<lparr>world = 2, trace = ?t6\<rparr>)"
    by (simp add: demo_outcome)
  from duplicate_languages[OF p i c o]
  have t: "translate demo_env (request ?content ?languages) start =
      (TranslateResponse (written [?first, ?later])
         \<lparr>totalLanguages = length [JStr ''es'', JStr ''es''],
          successful = length (filter (\<lambda>r. success r) (map snd (written [?first, ?later]))),
          failed = length (filter (\<lambda>r. \<not> success r) (map snd (written [?first, ?later])))\<rparr>,
       snd (call (Unlink ?src) (unlink demo_env ?src) \<lparr>world = 2, trace = ?t6\<rparr>))"
    and w: "\<forall>a l out b. [?first, ?later] = a @ (l, out) # b \<and> l \<notin> fst ` set b
       \<longrightarrow> dict_lookup (written [?first, ?later]) l = Some out"
    by blast+
  have "[?first, ?later] = [?first] @ ?later # [] \<and> JStr ''es'' \<notin> fst ` set []"
    by simp
  with w have "dict_lookup (written [?first, ?later]) (JStr ''es'') =
      Some (Translated ?content ''/tmp/later.arb'')"
    by blast
  with t show ?thesis
    by (simp add: written_def py_key_eq_def call_def demo_env_def)
qed

text \<open>
  Once the source file has been staged (created, written and closed), the handler
  removes it exactly once, through \<^verbatim>\<open>os.unlink\<close>, as its last effect: the loop and what
  comes before it do not touch \<^verbatim>\<open>os.unlink\<close> (they are the same for every
  \<^verbatim>\<open>os.unlink\<close>, and leave no removal in the trace), the call ends in the world that
  \<^verbatim>\<open>os.unlink\<close> of the source path leaves from the world of the loop's end, whatever the
  loop did, and the response is the same for every \<^verbatim>\<open>os.unlink\<close>, one that raises
  included.
\<close>

lemma cleanup_after_staging:
  assumes prep: "prepare env got s = (Inr (content, languages, source_path), s3)"
  shows "\<exists>r s4.
           (case py_iter languages of
              Inl e \<Rightarrow> (Inl e, s3)
            | Inr xs \<Rightarrow> translate_loop env source_path xs [] s3) = (r, s4)
           \<and> (\<forall>u. prepare (env\<lparr>unlink := u\<rparr>) got s = prepare env got s)
           \<and> (\<forall>u. (case py_iter languages of
                       Inl e \<Rightarrow> (Inl e, s3)
                     | Inr xs \<Rightarrow> translate_loop (env\<lparr>unlink := u\<rparr>) source_path xs [] s3)
                    = (r, s4))
           \<and> removals (trace s4) = removals (trace s)
           \<and> snd (translate env got s) =
               \<lparr>world = snd (unlink env source_path (world s4)),
                trace = trace s4 @ [Unlink source_path]\<rparr>
           \<and> (\<forall>u. fst (translate (env\<lparr>unlink := u\<rparr>) got s) = fst (translate env got s))"
proof -
  let ?loop = "\<lambda>env. case py_iter languages of
                  Inl e \<Rightarrow> (Inl e, s3)
                | Inr xs \<Rightarrow> translate_loop env source_path xs [] s3"
  obtain r s4 where l: "?loop env = (r, s4)"
    by (cases "?loop env")
  have same: "?loop (env\<lparr>unlink := u\<rparr>) = (r, s4)" for u
    using l by (simp add: translate_loop_unlink split: sum.splits)
  have quiet: "removals (trace s4) = removals (trace s)"
    using l prepare_trace[OF prep]
    by (auto split: sum.splits dest: translate_loop_removals)
  have tl: "translate_languages env source_path languages s3 =
      (r, \<lparr>world = snd (unlink env source_path (world s4)),
           trace = trace s4 @ [Unlink source_path]\<rparr>)"
    using l by (simp add: translate_languages_def call_def split: prod.splits)
  have final: "snd (translate env got s) =
      \<lparr>world = snd (unlink env source_path (world s4)),
       trace = trace s4 @ [Unlink source_path]\<rparr>"
    unfolding translate_staged[OF prep] tl by (simp split: sum.splits)
  have resp: "fst (translate (env\<lparr>unlink := u\<rparr>) got s) = fst (translate env got s)" for u
  proof -
    have p: "prepare (env\<lparr>unlink := u\<rparr>) got s = (Inr (content, languages, source_path), s3)"
      using prep by (simp add: prepare_unlink)
    have "fst (translate_languages (env\<lparr>unlink := u\<rparr>) source_path languages s3) =
        fst (translate_languages env source_path languages s3)"
      by (simp add: translate_languages_result translate_loop_unlink split: sum.splits)
    then show ?thesis
      unfolding translate_staged[OF prep] translate_staged[OF p]
      by (auto simp: translate_response_def split: prod.splits sum.splits)
  qed
  show ?thesis
    using l same quiet final resp prepare_unlink by blast
qed

text \<open>
  The temporary file is created and written in lines 76 to 78, before the \<^verbatim>\<open>try\<close> whose
  \<^verbatim>\<open>finally\<close> removes it. When the file has been created and the writing raises,
  \<^verbatim>\<open>os.unlink\<close> is never called: the call ends in the world the failed writing left.
\<close>

lemma staging_leak:
  assumes "data = JObj d"
    and "py_get data ''content'' (JObj []) = Inr content" and "truthy content"
    and "py_get data ''languages'' (JArr []) = Inr languages" and "truthy languages"
    and "get_translator env (world s) = (None, w1)"
    and "NamedTemporaryFile env w1 = (Inr source_path, w2)"
    and "dump env content source_path w2 = (Some e, w3)"
  shows "translate env (Inr data) s =
           (ErrorResponse 500 (''Translation failed: '' @ str e),
            \<lparr>world = w3, trace = trace s @ [GetTranslator, CreateTemp, Dump source_path]\<rparr>)"
proof -
  from assms(1,2,3) have "d \<noteq> []" by auto
  with assms show ?thesis
    by (simp add: translate_def prepare_def call_def translate_failed_def)
qed

text \<open>
  \<^bold>\<open>C3\<close> (the code departs from the claim). The claim asks the removal of the temporary
  source file on every path after the file was created. In the world where the file is
  created and the disk is full when the content is written, the handler answers 500,
  the file is still there when the call returns, and no removal was attempted. On the
  paths after a complete staging the claim holds (\<open>cleanup_after_staging\<close>).
\<close>

theorem dump_failure_leaves_file:
  "translate disk_env
     (request (JObj [(''a'', JStr ''b'')]) (JArr [JStr ''es''])) \<lparr>world = [], trace = []\<rparr> =
     (ErrorResponse 500 ''Translation failed: No space left on device'',
      \<lparr>world = [''/tmp/source.arb''],
       trace = [GetTranslator, CreateTemp, Dump ''/tmp/source.arb'']\<rparr>)"
  by (simp add: translate_def prepare_def request_def disk_env_def call_def
      translate_failed_def)

text \<open>
  \<^bold>\<open>C7\<close>. For a request body that is a JSON object, if the content is empty (any value
  Python counts as false, the default \<^verbatim>\<open>{}\<close> of an absent field included) or the
  languages are, the answer is the error response with status 400, and the world and the
  trace are the ones of the start: no file is staged, no collaborator is called, there
  are no results. The message is \<^verbatim>\<open>No content provided\<close> for an empty content and
  \<^verbatim>\<open>No target languages specified\<close> for empty languages with a content; the body
  \<^verbatim>\<open>{}\<close> itself gets \<^verbatim>\<open>No JSON payload provided\<close>.
\<close>

theorem translate_rejects_empty_input:
  assumes "data = JObj d"
    and "py_get data ''content'' (JObj []) = Inr content"
    and "py_get data ''languages'' (JArr []) = Inr languages"
    and "\<not> truthy content \<or> \<not> truthy languages"
  shows "translate env (Inr data) s =
           (ErrorResponse 400
              (if d = [] then ''No JSON payload provided''
               else if \<not> truthy content then ''No content provided''
               else ''No target languages specified''), s)"
  using assms by (auto simp: translate_def prepare_def)

text \<open>The witness: an empty content, and an empty list of languages.\<close>

theorem translate_rejects_empty_input_witness:
  "translate demo_env (request (JObj []) (JArr [JStr ''es''])) start =
     (ErrorResponse 400 ''No content provided'', start)
   \<and> translate demo_env (request (JObj [(''a'', JStr ''b'')]) (JArr [])) start =
     (ErrorResponse 400 ''No target languages specified'', start)"
proof -
  have "translate demo_env (Inr (JObj [(''content'', JObj []), (''languages'', JArr [JStr ''es''])]))
      start =
    (ErrorResponse 400
       (if [(''content'', JObj []), (''languages'', JArr [JStr ''es''])] = []
        then ''No JSON payload provided''
        else if \<not> truthy (JObj []) then ''No content provided''
        else ''No target languages specified''), start)"
    by (rule translate_rejects_empty_input
          [OF refl, where content = "JObj []" and languages = "JArr [JStr ''es'']"])
       simp_all
  moreover
  have "translate demo_env
      (Inr (JObj [(''content'', JObj [(''a'', JStr ''b'')]), (''languages'', JArr [])])) start =
    (ErrorResponse 400
       (if [(''content'', JObj [(''a'', JStr ''b'')]), (''languages'', JArr [])] = []
        then ''No JSON payload provided''
        else if \<not> truthy (JObj [(''a'', JStr ''b'')]) then ''No content provided''
        else ''No target languages specified''), start)"
    by (rule translate_rejects_empty_input
          [OF refl, where content = "JObj [(''a'', JStr ''b'')]" and languages = "JArr []"])
       simp_all
  ultimately show ?thesis
    by (simp add: request_def)
qed

text \<open>
  \<^bold>\<open>C8\<close>. For a request that passes the preconditions, if the creation of the temporary
  file raises, or the writing of the content into it does, the answer is the error
  response with status 500 and the message of the exception; the provider is not called
  and there are no results. (No removal takes place either.)
\<close>

theorem translate_staging_failure:
  assumes "data = JObj d"
    and "py_get data ''content'' (JObj []) = Inr content" and "truthy content"
    and "py_get data ''languages'' (JArr []) = Inr languages" and "truthy languages"
    and "get_translator env (world s) = (None, w1)"
    and "NamedTemporaryFile env w1 = (Inl e, w2)
         \<or> (\<exists>source_path w. NamedTemporaryFile env w1 = (Inr source_path, w)
               \<and> dump env content source_path w = (Some e, w2))"
  shows "\<exists>s2. translate env (Inr data) s =
                (ErrorResponse 500 (''Translation failed: '' @ str e), s2)
              \<and> world s2 = w2
              \<and> provider_calls (trace s2) = provider_calls (trace s)
              \<and> removals (trace s2) = removals (trace s)"
proof -
  from assms(1,2,3) have "d \<noteq> []" by auto
  with assms show ?thesis
    by (auto simp: translate_def prepare_def call_def translate_failed_def
        provider_calls_append removals_append)
qed

text \<open>The witness: a temporary directory with no space left.\<close>

theorem translate_staging_failure_witness:
  "fst (translate
        (demo_env\<lparr>NamedTemporaryFile := (\<lambda>w. (Inl (PyExn ''No space left on device''), w))\<rparr>)
        (request (JObj [(''a'', JStr ''b'')]) (JArr [JStr ''es''])) start) =
     ErrorResponse 500 ''Translation failed: No space left on device''
   \<and> provider_calls (trace (snd (translate
        (demo_env\<lparr>NamedTemporaryFile := (\<lambda>w. (Inl (PyExn ''No space left on device''), w))\<rparr>)
        (request (JObj [(''a'', JStr ''b'')]) (JArr [JStr ''es''])) start))) = []"
proof -
  let ?env = "demo_env\<lparr>NamedTemporaryFile := (\<lambda>w. (Inl (PyExn ''No space left on device''), w))\<rparr>"
  let ?data = "JObj [(''content'', JObj [(''a'', JStr ''b'')]), (''languages'', JArr [JStr ''es''])]"
  have "\<exists>s2. translate ?env (Inr ?data) start =
             (ErrorResponse 500 (''Translation failed: '' @ str (PyExn ''No space left on device'')), s2)
           \<and> world s2 = 0
           \<and> provider_calls (trace s2) = provider_calls (trace start)
           \<and> removals (trace s2) = removals (trace start)"
    by (rule translate_staging_failure
          [OF refl, where ?w1.0 = 0 and content = "JObj [(''a'', JStr ''b'')]"
             and languages = "JArr [JStr ''es'']"])
       (simp_all add: demo_env_def start_def)
  then show ?thesis
    by (auto simp: request_def start_def)
qed

end
